theory Spec2Isabelle
  imports Complex_Main "HOL-Library.Multiset" "HOL-Library.Code_Target_Nat"
begin

section \<open>Botvac LDS tools: the Scan container and the ScanParser\<close>

text \<open>
  A shallow embedding of \<^verbatim>\<open>botvac_tools/lds/lds.py\<close> (class \<^verbatim>\<open>Scan\<close>) and of
  \<^verbatim>\<open>botvac_tools/parser/scan_parser.py\<close> (class \<^verbatim>\<open>ScanParser\<close>).

  Numbers. The code is Python 2 with NumPy. The distances and angles of a \<^verbatim>\<open>Scan\<close> are
  floats and are modelled as \<^typ>\<open>real\<close>: the rounding of the arithmetic on them and the
  non-finite values (inf, nan) are outside the model of the \<^verbatim>\<open>Scan\<close>. The parser is
  modelled on IEEE doubles up to the call of \<^verbatim>\<open>add_measurement\<close>: \<^verbatim>\<open>float\<close> rounds a literal
  to the nearest double and reads the non-finite spellings, and the comparisons are
  those of doubles. Intensities and error codes are Python integers,
  modelled as \<^typ>\<open>int\<close>; the fixed width of the integers of a NumPy array is outside the
  model. A NumPy array is modelled as a list: \<^verbatim>\<open>np.append\<close> returns a
  new array with the value at the end, and indexing an array by an index array returns
  a new array, so no array that was handed out is modified afterwards.

  Errors. Every \<^verbatim>\<open>raise\<close> of the source raises \<^verbatim>\<open>ValueError\<close>; the raise sites differ
  by their message only. The model has one constructor for each raise site, one for
  the \<^verbatim>\<open>ValueError\<close> of the built-in conversions \<^verbatim>\<open>float\<close> and \<^verbatim>\<open>int\<close>, and one for a
  file that cannot be opened. \<open>NonFiniteValue\<close> is none of them: it marks the one place
  where the model of the parser does not follow the program.
\<close>

subsection \<open>Errors\<close>

datatype error =
    InvalidLinearUnit    \<comment> \<open>\<^verbatim>\<open>'{0} is not an available linear unit.'\<close>\<close>
  | InvalidAngularUnit   \<comment> \<open>\<^verbatim>\<open>'{0} is not an available angular unit.'\<close>\<close>
  | MalformedRecord      \<comment> \<open>\<^verbatim>\<open>'{0} could not be parsed.'\<close>\<close>
  | InvalidDistance      \<comment> \<open>\<^verbatim>\<open>'{0} is an invalid distance.'\<close>\<close>
  | InvalidAngle         \<comment> \<open>\<^verbatim>\<open>'{0} is an invalid angle.'\<close>\<close>
  | InvalidIntensity     \<comment> \<open>\<^verbatim>\<open>'{0} is an invalid intensity.'\<close>\<close>
  | InvalidErrorCode     \<comment> \<open>\<^verbatim>\<open>'{0} is an invalid error code.'\<close>\<close>
  | OutOfOrder           \<comment> \<open>\<^verbatim>\<open>'{0} was not an increase from the previous angle of {1}.'\<close>\<close>
  | ConversionError      \<comment> \<open>raised by \<^verbatim>\<open>float(...)\<close> or \<^verbatim>\<open>int(...)\<close> on a bad literal\<close>
  | IOError              \<comment> \<open>raised by \<^verbatim>\<open>open\<close>\<close>
  | NonFiniteValue       \<comment> \<open>not raised by the program: where the model of the parser stops\<close>

text \<open>The error kinds of the specification, as groups of raise sites.\<close>

fun is_InvalidUnit :: "error \<Rightarrow> bool" where
  "is_InvalidUnit InvalidLinearUnit = True"
| "is_InvalidUnit InvalidAngularUnit = True"
| "is_InvalidUnit _ = False"

fun is_InvalidValue :: "error \<Rightarrow> bool" where
  "is_InvalidValue InvalidDistance = True"
| "is_InvalidValue InvalidAngle = True"
| "is_InvalidValue InvalidIntensity = True"
| "is_InvalidValue InvalidErrorCode = True"
| "is_InvalidValue _ = False"

subsection \<open>The Scan container\<close>

text \<open>
  The attributes of a \<^verbatim>\<open>Scan\<close> object; \<open>s_distances\<close> is \<^verbatim>\<open>self._distances\<close>, and so on
  (an Isabelle name cannot start with an underscore).
\<close>

record Scan =
  s_distances :: "real list"
  s_angles :: "real list"
  s_intensities :: "int list"
  s_error_codes :: "int list"
  s_unsorted :: bool
  s_distance_max :: real

text \<open>\<^verbatim>\<open>Scan.__init__\<close>\<close>

definition Scan_init :: Scan where
  "Scan_init =
     \<lparr> s_distances = [], s_angles = [], s_intensities = [], s_error_codes = [],
       s_unsorted = True, s_distance_max = 5 \<rparr>"

text \<open>
  \<^verbatim>\<open>np.argsort(a)\<close>: the indices that sort \<open>a\<close>. NumPy promises a permutation of the
  indices that puts the values in ascending order; its default sort is not stable, so
  the order it gives to the indices of equal values is not fixed. The model takes the
  permutation that keeps equal values in their order (insertion sort on the indices).
  The statements about sorting below are made for some sorting permutation of the
  indices, so they do not rest on that choice.
\<close>

definition argsort :: "real list \<Rightarrow> nat list" where
  "argsort a = sort_key (\<lambda>i. a ! i) [0..<length a]"

text \<open>\<^verbatim>\<open>a[ndxs]\<close>: indexing an array by an array of indices.\<close>

definition take_ndxs :: "'a list \<Rightarrow> nat list \<Rightarrow> 'a list" where
  "take_ndxs a ndxs = map (\<lambda>i. a ! i) ndxs"

text \<open>\<^verbatim>\<open>Scan._sort_measurements\<close>\<close>

definition sort_measurements :: "Scan \<Rightarrow> Scan" where
  "sort_measurements self =
     (if s_unsorted self then
        (let sorted_ndxs = argsort (s_angles self) in
         self\<lparr> s_distances := take_ndxs (s_distances self) sorted_ndxs,
               s_angles := take_ndxs (s_angles self) sorted_ndxs,
               s_intensities := take_ndxs (s_intensities self) sorted_ndxs,
               s_error_codes := take_ndxs (s_error_codes self) sorted_ndxs,
               s_unsorted := False \<rparr>)
      else self)"

text \<open>
  The read accessors. Each returns its value and the object as the call leaves it.
  The methods \<^verbatim>\<open>x\<close> and \<^verbatim>\<open>y\<close> are \<open>Scan_x\<close> and \<open>Scan_y\<close> here.
\<close>

definition distances :: "Scan \<Rightarrow> real list \<times> Scan" where
  "distances self = (let self = sort_measurements self in (s_distances self, self))"

definition angles :: "Scan \<Rightarrow> real list \<times> Scan" where
  "angles self = (let self = sort_measurements self in (s_angles self, self))"

definition intensities :: "Scan \<Rightarrow> int list \<times> Scan" where
  "intensities self = (let self = sort_measurements self in (s_intensities self, self))"

definition error_codes :: "Scan \<Rightarrow> int list \<times> Scan" where
  "error_codes self = (let self = sort_measurements self in (s_error_codes self, self))"

text \<open>\<^verbatim>\<open>a*b\<close> on two arrays of one length: the products, element by element.\<close>

definition times_arrays :: "real list \<Rightarrow> real list \<Rightarrow> real list" where
  "times_arrays a b = map (\<lambda>(u, v). u * v) (zip a b)"

definition Scan_x :: "Scan \<Rightarrow> real list \<times> Scan" where
  "Scan_x self =
     (let self = sort_measurements self
      in (times_arrays (s_distances self) (map cos (s_angles self)), self))"

definition Scan_y :: "Scan \<Rightarrow> real list \<times> Scan" where
  "Scan_y self =
     (let self = sort_measurements self
      in (times_arrays (s_distances self) (map sin (s_angles self)), self))"

text \<open>\<^verbatim>\<open>np.vstack((self.x(), self.y()))\<close>: the two rows, \<open>x\<close> first.\<close>

definition points :: "Scan \<Rightarrow> real list list \<times> Scan" where
  "points self =
     (let (xs, self) = Scan_x self; (ys, self) = Scan_y self in ([xs, ys], self))"

text \<open>
  \<^verbatim>\<open>Scan.add_measurement\<close>. The result is the error raised, if any, and the object as
  the call leaves it: an exception does not undo an assignment made before it.
\<close>

definition acceptable_lu :: "string list" where
  "acceptable_lu = [''meters'', ''millimeters'']"

definition acceptable_au :: "string list" where
  "acceptable_au = [''degrees'', ''radians'']"

definition add_measurement ::
  "real \<Rightarrow> real \<Rightarrow> int \<Rightarrow> int \<Rightarrow> string \<Rightarrow> string \<Rightarrow> Scan \<Rightarrow> (error + unit) \<times> Scan" where
  "add_measurement distance angle intensity error_code linear_unit angular_unit self =
     (let self = self\<lparr> s_unsorted := True \<rparr> in
      if linear_unit \<notin> set acceptable_lu then (Inl InvalidLinearUnit, self)
      else if angular_unit \<notin> set acceptable_au then (Inl InvalidAngularUnit, self)
      else
        (let distance = (if linear_unit = ''millimeters'' then distance / 1000 else distance);
             distance = (if distance > s_distance_max self then 0 else distance);
             angle = (if angular_unit = ''degrees'' then angle * pi / 180 else angle)
         in (Inr (),
             self\<lparr> s_distances := s_distances self @ [distance],
                   s_angles := s_angles self @ [angle],
                   s_intensities := s_intensities self @ [intensity],
                   s_error_codes := s_error_codes self @ [error_code] \<rparr>)))"

subsection \<open>Strings as Python 2 handles them\<close>

text \<open>
  A Python 2 \<^verbatim>\<open>str\<close> is a sequence of bytes, as \<^typ>\<open>string\<close> is.
  \<^verbatim>\<open>sub in s\<close>: \<open>sub\<close> occurs in \<open>s\<close> as a contiguous piece.
\<close>

fun str_in :: "string \<Rightarrow> string \<Rightarrow> bool" where
  "str_in sub [] = (sub = [])"
| "str_in sub (c # cs) = (take (length sub) (c # cs) = sub \<or> str_in sub cs)"

text \<open>
  The lines of a file opened with \<^verbatim>\<open>'rb'\<close>, as \<^verbatim>\<open>for line in scan_file\<close> yields them:
  each line ends with its newline, but for a last line that has none.
\<close>

definition newline :: char where
  "newline = CHR 0x0A"

fun file_lines :: "string \<Rightarrow> string list" where
  "file_lines [] = []"
| "file_lines (c # cs) =
     (if c = newline then [c] # file_lines cs
      else (case file_lines cs of [] \<Rightarrow> [[c]] | l # ls \<Rightarrow> (c # l) # ls))"

text \<open>
  \<^verbatim>\<open>s.split()\<close>: the maximal pieces of \<open>s\<close> without whitespace, which is space, tab,
  newline, vertical tab, form feed and carriage return.
\<close>

definition is_space :: "char \<Rightarrow> bool" where
  "is_space c = (c \<in> set [CHR 0x20, CHR 0x09, CHR 0x0A, CHR 0x0B, CHR 0x0C, CHR 0x0D])"

fun split_acc :: "string \<Rightarrow> string \<Rightarrow> string list" where
  "split_acc tok [] = (if tok = [] then [] else [tok])"
| "split_acc tok (c # cs) =
     (if is_space c then (if tok = [] then split_acc [] cs else tok # split_acc [] cs)
      else split_acc (tok @ [c]) cs)"

definition split_ws :: "string \<Rightarrow> string list" where
  "split_ws s = split_acc [] s"

text \<open>\<^verbatim>\<open>s.split(sep)\<close> for a separator of one character: never the empty list.\<close>

fun split_on :: "char \<Rightarrow> string \<Rightarrow> string list" where
  "split_on sep [] = [[]]"
| "split_on sep (c # cs) =
     (if c = sep then [] # split_on sep cs
      else (case split_on sep cs of [] \<Rightarrow> [[c]] | f # fs \<Rightarrow> (c # f) # fs))"

text \<open>
  \<^verbatim>\<open>int(s)\<close> on a \<^verbatim>\<open>str\<close> without whitespace: an optional sign and one or more decimal
  digits; anything else raises \<^verbatim>\<open>ValueError\<close> (\<open>None\<close> here). The pieces that \<^verbatim>\<open>split()\<close>
  returns hold no whitespace.
\<close>

definition is_digit :: "char \<Rightarrow> bool" where
  "is_digit c = (48 \<le> (of_char c :: nat) \<and> (of_char c :: nat) \<le> 57)"

definition digits_val :: "string \<Rightarrow> nat" where
  "digits_val s = foldl (\<lambda>a c. 10 * a + ((of_char c :: nat) - 48)) 0 s"

definition py_digits :: "string \<Rightarrow> nat option" where
  "py_digits s = (if s \<noteq> [] \<and> list_all is_digit s then Some (digits_val s) else None)"

definition py_int :: "string \<Rightarrow> int option" where
  "py_int s =
     (case s of
        [] \<Rightarrow> None
      | c # cs \<Rightarrow>
          if c = CHR ''-'' then map_option (\<lambda>n. - int n) (py_digits cs)
          else if c = CHR ''+'' then map_option int (py_digits cs)
          else map_option int (py_digits s))"

text \<open>
  A Python float is an IEEE double: a finite value, an infinity or not-a-number. A
  comparison with not-a-number is false. \<open>pf_less a b\<close> is \<^verbatim>\<open>a < b\<close> (and \<^verbatim>\<open>b > a\<close>),
  \<open>pf_le a b\<close> is \<^verbatim>\<open>a <= b\<close> (and \<^verbatim>\<open>b >= a\<close>). The two zeros of IEEE are the one
  \<open>Finite 0\<close>: the code only compares them, and they compare equal.
\<close>

datatype pyfloat = Finite real | PosInf | NegInf | NaN

fun pf_less :: "pyfloat \<Rightarrow> pyfloat \<Rightarrow> bool" where
  "pf_less (Finite a) (Finite b) = (a < b)"
| "pf_less NegInf (Finite b) = True"
| "pf_less NegInf PosInf = True"
| "pf_less (Finite a) PosInf = True"
| "pf_less _ _ = False"

fun pf_le :: "pyfloat \<Rightarrow> pyfloat \<Rightarrow> bool" where
  "pf_le (Finite a) (Finite b) = (a \<le> b)"
| "pf_le NaN _ = False"
| "pf_le _ NaN = False"
| "pf_le NegInf _ = True"
| "pf_le _ PosInf = True"
| "pf_le _ _ = False"

fun pf_neg :: "pyfloat \<Rightarrow> pyfloat" where
  "pf_neg (Finite a) = Finite (- a)"
| "pf_neg PosInf = NegInf"
| "pf_neg NegInf = PosInf"
| "pf_neg NaN = NaN"

text \<open>
  The double nearest to the fraction \<open>p/d\<close> (\<open>d\<close> not 0), ties to the even significand,
  as the conversion of a decimal literal rounds. For \<open>p/d\<close> in the binade
  \<open>2^e \<le> p/d < 2^(e+1)\<close> the doubles are the multiples of \<open>2^(e-52)\<close>; below
  \<open>2^(-1022)\<close> they are the multiples of \<open>2^(-1074)\<close>; a result of \<open>2^1024\<close> or more is
  infinity.
\<close>

fun bit_length :: "nat \<Rightarrow> nat" where
  "bit_length n = (if n = 0 then 0 else Suc (bit_length (n div 2)))"

declare bit_length.simps [simp del]

definition binade :: "nat \<Rightarrow> nat \<Rightarrow> int" where
  "binade p d =
     (let e0 = int (bit_length p) - int (bit_length d)
      in if (if 0 \<le> e0 then d * 2 ^ nat e0 \<le> p else d \<le> p * 2 ^ nat (- e0))
         then e0 else e0 - 1)"

definition round_half_even :: "nat \<Rightarrow> nat \<Rightarrow> nat" where
  "round_half_even num den =
     (let q = num div den; r = num mod den
      in if 2 * r < den then q
         else if den < 2 * r then q + 1
         else if even q then q else q + 1)"

definition round_double :: "nat \<Rightarrow> nat \<Rightarrow> pyfloat" where
  "round_double p d =
     (if p = 0 then Finite 0
      else
        (let e = max (binade p d) (- 1022);
             n = (if 52 \<le> e then round_half_even p (d * 2 ^ nat (e - 52))
                  else round_half_even (p * 2 ^ nat (52 - e)) d)
         in if 1023 < e \<or> (e = 1023 \<and> 2 ^ 53 \<le> n) then PosInf
            else if 52 \<le> e then Finite (real (n * 2 ^ nat (e - 52)))
            else Finite (real n / 2 ^ nat (52 - e))))"

text \<open>
  \<^verbatim>\<open>float(s)\<close> on a \<^verbatim>\<open>str\<close> without whitespace. It reads an optional sign and then either
  \<^verbatim>\<open>inf\<close>, \<^verbatim>\<open>infinity\<close> or \<^verbatim>\<open>nan\<close>, in any case of the letters, or a decimal literal:
  digits with an optional point (a digit on one side of it at least), and an optional
  exponent \<^verbatim>\<open>e\<close> or \<^verbatim>\<open>E\<close> with an optional sign and one or more digits. The value of a
  decimal literal is the double nearest to the number it denotes. Anything else raises
  \<^verbatim>\<open>ValueError\<close> (\<open>None\<close> here).
\<close>

fun ci_match :: "string \<Rightarrow> string \<Rightarrow> string \<Rightarrow> bool" where
  "ci_match [] [] [] = True"
| "ci_match (c # cs) (l # ls) (u # us) = ((c = l \<or> c = u) \<and> ci_match cs ls us)"
| "ci_match _ _ _ = False"

definition is_inf_word :: "string \<Rightarrow> bool" where
  "is_inf_word s = (ci_match s ''inf'' ''INF'' \<or> ci_match s ''infinity'' ''INFINITY'')"

definition is_nan_word :: "string \<Rightarrow> bool" where
  "is_nan_word s = ci_match s ''nan'' ''NAN''"

text \<open>The digits of a mantissa, read as one number, and the count of those after the point.\<close>

definition py_mantissa :: "string \<Rightarrow> (nat \<times> nat) option" where
  "py_mantissa m =
     (let ip = takeWhile (\<lambda>c. c \<noteq> CHR ''.'') m;
          r = dropWhile (\<lambda>c. c \<noteq> CHR ''.'') m
      in case r of
           [] \<Rightarrow> (if ip \<noteq> [] \<and> list_all is_digit ip then Some (digits_val ip, 0) else None)
         | _ # fp \<Rightarrow>
             (if (ip \<noteq> [] \<or> fp \<noteq> []) \<and> list_all is_digit ip \<and> list_all is_digit fp
              then Some (digits_val (ip @ fp), length fp)
              else None))"

definition is_exp_mark :: "char \<Rightarrow> bool" where
  "is_exp_mark c = (c = CHR ''e'' \<or> c = CHR ''E'')"

text \<open>The number that a decimal literal denotes, as a fraction \<open>(p, d)\<close>.\<close>

definition py_decimal :: "string \<Rightarrow> (nat \<times> nat) option" where
  "py_decimal u =
     (let m = takeWhile (\<lambda>c. \<not> is_exp_mark c) u;
          r = dropWhile (\<lambda>c. \<not> is_exp_mark c) u
      in case py_mantissa m of
           None \<Rightarrow> None
         | Some (digs, places) \<Rightarrow>
             (case (case r of [] \<Rightarrow> Some 0 | _ # ex \<Rightarrow> py_int ex) of
                None \<Rightarrow> None
              | Some k \<Rightarrow>
                  Some (if int places \<le> k then (digs * 10 ^ nat (k - int places), 1)
                        else (digs, 10 ^ nat (int places - k)))))"

definition py_unsigned_float :: "string \<Rightarrow> pyfloat option" where
  "py_unsigned_float u =
     (if is_inf_word u then Some PosInf
      else if is_nan_word u then Some NaN
      else map_option (\<lambda>(p, d). round_double p d) (py_decimal u))"

definition py_float :: "string \<Rightarrow> pyfloat option" where
  "py_float s =
     (case s of
        [] \<Rightarrow> None
      | c # cs \<Rightarrow>
          if c = CHR ''-'' then map_option pf_neg (py_unsigned_float cs)
          else if c = CHR ''+'' then py_unsigned_float cs
          else py_unsigned_float s)"


subsection \<open>The ScanParser\<close>

text \<open>
  The file system is a map from the name of a file to its content; \<^verbatim>\<open>open\<close> raises on
  a name that has none.
\<close>

type_synonym files = "string \<rightharpoonup> string"

definition start_token :: string where
  "start_token = ''AngleInDegrees''"

definition end_token :: string where
  "end_token = ''ROTATION_SPEED''"

text \<open>
  \<^verbatim>\<open>ScanParser.file_to_strings\<close>. The state of the loop is \<open>(scans, scan_string,
  append_to_str)\<close>; \<open>file_to_strings_line\<close> is the body of the loop for one line.
\<close>

fun file_to_strings_line ::
  "string list \<times> string \<times> bool \<Rightarrow> string \<Rightarrow> string list \<times> string \<times> bool" where
  "file_to_strings_line (scans, scan_string, append_to_str) line =
     (if str_in start_token line then (scans, [], True)
      else if str_in end_token line \<and> append_to_str then (scans @ [scan_string], scan_string, False)
      else if append_to_str then (scans, scan_string @ line, append_to_str)
      else (scans, scan_string, append_to_str))"

fun file_to_strings_loop ::
  "string list \<Rightarrow> string list \<times> string \<times> bool \<Rightarrow> string list \<times> string \<times> bool" where
  "file_to_strings_loop [] st = st"
| "file_to_strings_loop (line # rest) st =
     file_to_strings_loop rest (file_to_strings_line st line)"

text \<open>The loop from its initial state, and the list \<open>scans\<close> that is returned after it.\<close>

definition file_to_strings_lines :: "string list \<Rightarrow> string list" where
  "file_to_strings_lines lines = fst (file_to_strings_loop lines ([], [], False))"

definition file_to_strings :: "files \<Rightarrow> string \<Rightarrow> error + string list" where
  "file_to_strings fs filename =
     (case fs filename of
        None \<Rightarrow> Inl IOError
      | Some content \<Rightarrow> Inr (file_to_strings_lines (file_lines content)))"

text \<open>
  \<^verbatim>\<open>ScanParser.from_string\<close>. The state of the loop is \<open>(prev_angle, scan)\<close>, where
  \<open>prev_angle\<close> is \<open>None\<close> as long as it is the string \<^verbatim>\<open>'No previous angle.'\<close>;
  \<open>from_string_line\<close> is the body of the loop for one line. The call of
  \<^verbatim>\<open>add_measurement\<close> leaves the units at their defaults. The checks come before that
  call, as in the code, on the doubles that \<^verbatim>\<open>float\<close> has returned. When the line has passed
  them with a distance or an angle that is not finite (the program goes on and stores
  it), the model stops with \<open>NonFiniteValue\<close>, which is no error of the program.
\<close>

definition from_string_line ::
  "pyfloat option \<times> Scan \<Rightarrow> string \<Rightarrow> error + (pyfloat option \<times> Scan)" where
  "from_string_line st line =
     (let prev_angle = fst st; scan = snd st; meas = split_on CHR '','' line in
      if length meas \<noteq> 4 then Inl MalformedRecord
      else
        (case py_float (meas ! 0) of None \<Rightarrow> Inl ConversionError | Some angle \<Rightarrow>
        (case py_float (meas ! 1) of None \<Rightarrow> Inl ConversionError | Some distance \<Rightarrow>
        (case py_int (meas ! 2) of None \<Rightarrow> Inl ConversionError | Some intense \<Rightarrow>
        (case py_int (meas ! 3) of None \<Rightarrow> Inl ConversionError | Some err \<Rightarrow>
           if pf_less distance (Finite 0) then Inl InvalidDistance
           else if pf_less angle (Finite 0) \<or> pf_less (Finite 359) angle then Inl InvalidAngle
           else if intense < 0 then Inl InvalidIntensity
           else if err < 0 then Inl InvalidErrorCode
           else
             (case (case prev_angle of
                      None \<Rightarrow> Inr (Some angle)
                    | Some p \<Rightarrow> if pf_le angle p then Inl OutOfOrder else Inr (Some p)) of
                Inl e \<Rightarrow> Inl e
              | Inr prev_angle \<Rightarrow>
                  (case (distance, angle) of
                     (Finite d, Finite a) \<Rightarrow>
                       (case add_measurement d a intense err
                               ''millimeters'' ''degrees'' scan of
                          (Inl e, _) \<Rightarrow> Inl e
                        | (Inr _, scan) \<Rightarrow> Inr (prev_angle, scan))
                   | _ \<Rightarrow> Inl NonFiniteValue)))))))"

fun from_string_loop ::
  "string list \<Rightarrow> pyfloat option \<times> Scan \<Rightarrow> error + (pyfloat option \<times> Scan)" where
  "from_string_loop [] st = Inr st"
| "from_string_loop (line # rest) st =
     (case from_string_line st line of
        Inl e \<Rightarrow> Inl e
      | Inr st \<Rightarrow> from_string_loop rest st)"

definition from_string :: "string \<Rightarrow> error + Scan" where
  "from_string scan_string =
     (case from_string_loop (split_ws scan_string) (None, Scan_init) of
        Inl e \<Rightarrow> Inl e
      | Inr st \<Rightarrow> Inr (snd st))"

text \<open>
  \<^verbatim>\<open>ScanParser.from_file\<close>. The \<^verbatim>\<open>try\<close> is around the call of \<^verbatim>\<open>from_string\<close> only: an
  error of \<^verbatim>\<open>file_to_strings\<close> reaches the caller.
\<close>

fun from_file_loop :: "string list \<Rightarrow> Scan list \<Rightarrow> Scan list" where
  "from_file_loop [] scans = scans"
| "from_file_loop (scan_string # rest) scans =
     (case from_string scan_string of
        Inl _ \<Rightarrow> from_file_loop rest scans
      | Inr scan \<Rightarrow> from_file_loop rest (scans @ [scan]))"

definition from_file :: "files \<Rightarrow> string \<Rightarrow> error + Scan list" where
  "from_file fs filename =
     (case file_to_strings fs filename of
        Inl e \<Rightarrow> Inl e
      | Inr scan_strings \<Rightarrow> Inr (from_file_loop scan_strings []))"

subsection \<open>The states a Scan can be in\<close>

text \<open>
  A \<^verbatim>\<open>Scan\<close> is created by \<^verbatim>\<open>Scan()\<close> and changed by its methods only:
  \<^verbatim>\<open>add_measurement\<close>, whether it returns or raises, and the read accessors, each of
  which leaves the object as \<open>sort_measurements\<close> leaves it.
\<close>

inductive reachable :: "Scan \<Rightarrow> bool" where
  created: "reachable Scan_init"
| added: "reachable self \<Longrightarrow>
     reachable (snd (add_measurement distance angle intensity error_code linear_unit angular_unit self))"
| accessed: "reachable self \<Longrightarrow> reachable (sort_measurements self)"

text \<open>The four sequences of a \<^verbatim>\<open>Scan\<close> have one length.\<close>

definition same_lengths :: "Scan \<Rightarrow> bool" where
  "same_lengths self =
     (length (s_distances self) = length (s_angles self)
      \<and> length (s_intensities self) = length (s_angles self)
      \<and> length (s_error_codes self) = length (s_angles self))"

subsection \<open>The extraction of scan strings, as the specification words it\<close>

text \<open>
  The specification describes \<^verbatim>\<open>file_to_strings\<close> as a machine with two modes. Not
  accumulating: a line with the start token begins a new, empty buffer, any other line
  is discarded. Accumulating: a line with the start token begins a new, empty buffer;
  a line with the end token closes the buffer as one scan string and stops the
  accumulation; any other line is added to the buffer. At the end of the file a buffer
  that was not closed is dropped. The rules are read in the order of the text, so a line
  with both tokens is a line with the start token.
\<close>

fun spec_idle :: "string list \<Rightarrow> string list"
  and spec_accumulating :: "string \<Rightarrow> string list \<Rightarrow> string list" where
  "spec_idle [] = []"
| "spec_idle (line # rest) =
     (if str_in start_token line then spec_accumulating [] rest else spec_idle rest)"
| "spec_accumulating buffer [] = []"
| "spec_accumulating buffer (line # rest) =
     (if str_in start_token line then spec_accumulating [] rest
      else if str_in end_token line then buffer # spec_idle rest
      else spec_accumulating (buffer @ line) rest)"

section \<open>Properties of the Scan container\<close>

subsection \<open>Sorting: auxiliary facts\<close>

lemma sort_measurements_sorted_id: "\<not> s_unsorted self \<Longrightarrow> sort_measurements self = self"
  by (simp add: sort_measurements_def)

lemma s_unsorted_sort_measurements: "\<not> s_unsorted (sort_measurements self)"
  by (simp add: sort_measurements_def Let_def)

lemma sort_measurements_idem:
  "sort_measurements (sort_measurements self) = sort_measurements self"
  by (rule sort_measurements_sorted_id) (rule s_unsorted_sort_measurements)

lemma s_unsorted_add_measurement:
  "s_unsorted (snd (add_measurement d a i e lu au self))"
  by (simp add: add_measurement_def Let_def)

lemma sorted_take_ndxs_argsort: "sorted (take_ndxs a (argsort a))"
  unfolding take_ndxs_def argsort_def by (rule sorted_sort_key)

lemma mset_argsort: "mset (argsort a) = mset [0..<length a]"
  by (simp add: argsort_def)

lemma length_take_ndxs: "length (take_ndxs a ndxs) = length ndxs"
  by (simp add: take_ndxs_def)

lemma take_ndxs_upt: "length a = n \<Longrightarrow> take_ndxs a [0..<n] = a"
  by (auto simp add: take_ndxs_def intro: nth_equalityI)

lemma times_arrays_take_ndxs:
  "times_arrays (take_ndxs d p) (map f (take_ndxs a p)) = map (\<lambda>k. d ! k * f (a ! k)) p"
  by (induction p) (simp_all add: times_arrays_def take_ndxs_def)

lemma same_lengths_add_measurement:
  "same_lengths self \<Longrightarrow> same_lengths (snd (add_measurement d a i e lu au self))"
  by (simp add: add_measurement_def same_lengths_def Let_def)

lemma same_lengths_sort_measurements:
  "same_lengths self \<Longrightarrow> same_lengths (sort_measurements self)"
  by (simp add: sort_measurements_def same_lengths_def Let_def length_take_ndxs)

lemma reachable_invariant:
  "reachable self \<Longrightarrow> same_lengths self \<and> (s_unsorted self \<or> sorted (s_angles self))"
proof (induction rule: reachable.induct)
  case created
  show ?case by (simp add: Scan_init_def same_lengths_def)
next
  case (added self distance angle intensity error_code linear_unit angular_unit)
  then show ?case
    by (simp add: same_lengths_add_measurement s_unsorted_add_measurement)
next
  case (accessed self)
  then have "same_lengths (sort_measurements self)"
    by (simp add: same_lengths_sort_measurements)
  moreover from accessed have "sorted (s_angles (sort_measurements self))"
    by (auto simp add: sort_measurements_def Let_def sorted_take_ndxs_argsort)
  ultimately show ?case by simp
qed

lemma sort_measurements_permutation:
  assumes "same_lengths self"
  shows "\<exists>p. mset p = mset [0..<length (s_angles self)]
           \<and> sort_measurements self =
               self\<lparr> s_distances := take_ndxs (s_distances self) p,
                     s_angles := take_ndxs (s_angles self) p,
                     s_intensities := take_ndxs (s_intensities self) p,
                     s_error_codes := take_ndxs (s_error_codes self) p,
                     s_unsorted := False \<rparr>"
proof (cases "s_unsorted self")
  case True
  then show ?thesis
    by (intro exI [of _ "argsort (s_angles self)"])
       (simp add: sort_measurements_def Let_def mset_argsort)
next
  case False
  with assms show ?thesis
    by (intro exI [of _ "[0..<length (s_angles self)]"])
       (simp add: sort_measurements_def same_lengths_def take_ndxs_upt)
qed

subsection \<open>Adding a measurement\<close>

text \<open>
  Claim C1 says that \<^verbatim>\<open>add_measurement(5000, 90, linear_unit='millimeters',
  angular_unit='degrees')\<close> stores the distance 0 and the angle \<open>\<pi>/2\<close>. The test of the
  code is \<^verbatim>\<open>distance > self._distance_max\<close>, and 5000/1000 = 5 is not greater than 5:
  on a new Scan the call stores the distance 5.
\<close>

theorem add_measurement_5000_stores_5:
  "last (s_distances (snd (add_measurement 5000 90 0 0 ''millimeters'' ''degrees'' Scan_init))) = 5
   \<and> last (s_distances (snd (add_measurement 5000 90 0 0 ''millimeters'' ''degrees'' Scan_init)))
       \<noteq> 0"
  by (simp add: add_measurement_def Scan_init_def acceptable_lu_def acceptable_au_def)

text \<open>
  Claim C1, amended: on every Scan whose maximum is 5.0, the call
  \<^verbatim>\<open>add_measurement(5000, 90, linear_unit='millimeters', angular_unit='degrees')\<close> returns,
  appends the distance 5 (5000/1000 = 5 does not exceed the maximum), the angle \<open>\<pi>/2\<close>,
  the intensity and the error code, and sets the dirty flag; a distance of more than
  5000 millimeters is stored as 0.
\<close>

theorem add_measurement_5000_90:
  assumes "s_distance_max self = 5"
  shows "add_measurement 5000 90 i e ''millimeters'' ''degrees'' self =
           (Inr (), self\<lparr> s_distances := s_distances self @ [5],
                          s_angles := s_angles self @ [pi / 2],
                          s_intensities := s_intensities self @ [i],
                          s_error_codes := s_error_codes self @ [e],
                          s_unsorted := True \<rparr>)
         \<and> (5000 < d \<longrightarrow>
              s_distances (snd (add_measurement d 90 i e ''millimeters'' ''degrees'' self)) =
                s_distances self @ [0])"
  using assms by (simp add: add_measurement_def acceptable_lu_def acceptable_au_def)

theorem add_measurement_5000_90_witness:
  "s_distance_max Scan_init = 5 \<and> (5000::real) < 6000
   \<and> add_measurement 5000 90 7 3 ''millimeters'' ''degrees'' Scan_init =
           (Inr (), \<lparr> s_distances = [5], s_angles = [pi / 2], s_intensities = [7],
                      s_error_codes = [3], s_unsorted = True, s_distance_max = 5 \<rparr>)
   \<and> s_distances (snd (add_measurement 6000 90 7 3 ''millimeters'' ''degrees'' Scan_init)) = [0]"
proof -
  have h: "s_distance_max Scan_init = 5" by (simp add: Scan_init_def)
  show ?thesis using add_measurement_5000_90 [OF h, of 7 3 6000] by (simp add: Scan_init_def)
qed

text \<open>
  Claim C3 says that a call of \<^verbatim>\<open>add_measurement\<close> with a unit that is not accepted fails
  with InvalidUnit and leaves the Scan as it was. The first statement of the method is
  \<^verbatim>\<open>self._unsorted = True\<close>, before the units are looked at: on a Scan that an accessor
  has sorted, the failing call changes the dirty flag.
\<close>

theorem add_measurement_invalid_unit_changes_flag:
  "fst (add_measurement 1 0 0 0 ''bogus'' ''degrees'' (snd (distances Scan_init)))
     = Inl InvalidLinearUnit
   \<and> snd (add_measurement 1 0 0 0 ''bogus'' ''degrees'' (snd (distances Scan_init)))
       \<noteq> snd (distances Scan_init)"
  by (simp add: add_measurement_def distances_def sort_measurements_def Scan_init_def
        acceptable_lu_def Let_def)

text \<open>
  Claim C3, amended: for every Scan, a call of \<^verbatim>\<open>add_measurement\<close> with a linear unit
  outside millimeters and meters, or an angular unit outside degrees and radians, fails
  with InvalidUnit; no measurement is appended and the four sequences and the maximum
  are as before the call; the dirty flag is set.
\<close>

theorem add_measurement_invalid_unit:
  assumes "linear_unit \<notin> {''millimeters'', ''meters''}
           \<or> angular_unit \<notin> {''degrees'', ''radians''}"
  shows "\<exists>err. is_InvalidUnit err
           \<and> add_measurement d a i e linear_unit angular_unit self =
               (Inl err, self\<lparr> s_unsorted := True \<rparr>)"
proof (cases "linear_unit \<in> set acceptable_lu")
  case False
  then show ?thesis
    by (intro exI [of _ InvalidLinearUnit]) (simp add: add_measurement_def)
next
  case True
  with assms have "angular_unit \<notin> set acceptable_au"
    by (auto simp add: acceptable_lu_def acceptable_au_def)
  with True show ?thesis
    by (intro exI [of _ InvalidAngularUnit]) (simp add: add_measurement_def)
qed

theorem add_measurement_invalid_unit_witness:
  "''bogus'' \<notin> {''millimeters'', ''meters''}
   \<and> (\<exists>err. is_InvalidUnit err
         \<and> add_measurement 1 0 0 0 ''bogus'' ''degrees'' Scan_init =
             (Inl err, Scan_init\<lparr> s_unsorted := True \<rparr>))"
proof -
  have h: "''bogus'' \<notin> {''millimeters'', ''meters''}
           \<or> ''degrees'' \<notin> {''degrees'', ''radians''}"
    by simp
  show ?thesis using add_measurement_invalid_unit [OF h, of 1 0 0 0 Scan_init] by simp
qed

text \<open>
  Claim C6: with the linear unit millimeters, \<^verbatim>\<open>add_measurement\<close> stores the distance
  divided by 1000, when that is not more than the maximum; with the angular unit degrees
  it stores the angle times \<open>\<pi>/180\<close>; and \<^verbatim>\<open>add_measurement(1000, 90)\<close>, with the units,
  the intensity and the error code at their defaults, stores the distance 1 and the
  angle \<open>\<pi>/2\<close>.
\<close>

theorem add_measurement_normalizes:
  "(angular_unit \<in> {''degrees'', ''radians''} \<and> \<not> d / 1000 > s_distance_max self \<longrightarrow>
      fst (add_measurement d a i e ''millimeters'' angular_unit self) = Inr ()
      \<and> s_distances (snd (add_measurement d a i e ''millimeters'' angular_unit self)) =
          s_distances self @ [d / 1000])
   \<and> (linear_unit \<in> {''millimeters'', ''meters''} \<longrightarrow>
      fst (add_measurement d a i e linear_unit ''degrees'' self) = Inr ()
      \<and> s_angles (snd (add_measurement d a i e linear_unit ''degrees'' self)) =
          s_angles self @ [a * pi / 180])
   \<and> (s_distance_max self = 5 \<longrightarrow>
      add_measurement 1000 90 0 0 ''millimeters'' ''degrees'' self =
        (Inr (), self\<lparr> s_distances := s_distances self @ [1],
                       s_angles := s_angles self @ [pi / 2],
                       s_intensities := s_intensities self @ [0],
                       s_error_codes := s_error_codes self @ [0],
                       s_unsorted := True \<rparr>))"
  by (auto simp add: add_measurement_def acceptable_lu_def acceptable_au_def Let_def)

theorem add_measurement_normalizes_witness:
  "''degrees'' \<in> {''degrees'', ''radians''} \<and> \<not> (2500::real) / 1000 > s_distance_max Scan_init
   \<and> ''millimeters'' \<in> {''millimeters'', ''meters''} \<and> s_distance_max Scan_init = 5
   \<and> s_distances (snd (add_measurement 2500 45 0 0 ''millimeters'' ''degrees'' Scan_init)) = [5 / 2]
   \<and> s_angles (snd (add_measurement 2500 45 0 0 ''millimeters'' ''degrees'' Scan_init)) = [pi / 4]
   \<and> add_measurement 1000 90 0 0 ''millimeters'' ''degrees'' Scan_init =
        (Inr (), \<lparr> s_distances = [1], s_angles = [pi / 2], s_intensities = [0],
                   s_error_codes = [0], s_unsorted = True, s_distance_max = 5 \<rparr>)"
  using add_measurement_normalizes
    [where angular_unit = "''degrees''" and d = 2500 and self = Scan_init and a = 45
       and i = 0 and e = 0 and linear_unit = "''millimeters''"]
  by (simp add: Scan_init_def)

subsection \<open>The read accessors\<close>

text \<open>
  Claim C4: after any sequence of calls of \<^verbatim>\<open>add_measurement\<close> and of the accessors on
  a new Scan, the four sequences have one length, and the accessors return them sorted
  by ascending angle and aligned: one permutation \<open>p\<close> of the indices gives all four
  results, and those of \<^verbatim>\<open>x\<close>, \<^verbatim>\<open>y\<close> and \<^verbatim>\<open>points\<close>.
\<close>

theorem accessors_sorted_aligned:
  assumes "reachable self"
  shows "length (s_distances self) = length (s_angles self)
       \<and> length (s_intensities self) = length (s_angles self)
       \<and> length (s_error_codes self) = length (s_angles self)
       \<and> sorted (fst (angles self))
       \<and> (\<exists>p. mset p = mset [0..<length (s_angles self)]
            \<and> fst (distances self) = map (\<lambda>k. s_distances self ! k) p
            \<and> fst (angles self) = map (\<lambda>k. s_angles self ! k) p
            \<and> fst (intensities self) = map (\<lambda>k. s_intensities self ! k) p
            \<and> fst (error_codes self) = map (\<lambda>k. s_error_codes self ! k) p
            \<and> fst (Scan_x self) = map (\<lambda>k. s_distances self ! k * cos (s_angles self ! k)) p
            \<and> fst (Scan_y self) = map (\<lambda>k. s_distances self ! k * sin (s_angles self ! k)) p
            \<and> fst (points self) = [fst (Scan_x self), fst (Scan_y self)])"
proof -
  from assms have inv: "same_lengths self" "s_unsorted self \<or> sorted (s_angles self)"
    by (simp_all add: reachable_invariant)
  have lens: "length (s_distances self) = length (s_angles self)
       \<and> length (s_intensities self) = length (s_angles self)
       \<and> length (s_error_codes self) = length (s_angles self)"
    using inv(1) by (simp add: same_lengths_def)
  have srt: "sorted (fst (angles self))"
    using inv(2)
    by (auto simp add: angles_def sort_measurements_def Let_def sorted_take_ndxs_argsort)
  from sort_measurements_permutation [OF inv(1)] obtain p where
    p: "mset p = mset [0..<length (s_angles self)]"
    and eq: "sort_measurements self =
               self\<lparr> s_distances := take_ndxs (s_distances self) p,
                     s_angles := take_ndxs (s_angles self) p,
                     s_intensities := take_ndxs (s_intensities self) p,
                     s_error_codes := take_ndxs (s_error_codes self) p,
                     s_unsorted := False \<rparr>"
    by blast
  have d: "fst (distances self) = map (\<lambda>k. s_distances self ! k) p"
    by (simp add: distances_def Let_def eq take_ndxs_def)
  have a: "fst (angles self) = map (\<lambda>k. s_angles self ! k) p"
    by (simp add: angles_def Let_def eq take_ndxs_def)
  have i: "fst (intensities self) = map (\<lambda>k. s_intensities self ! k) p"
    by (simp add: intensities_def Let_def eq take_ndxs_def)
  have e: "fst (error_codes self) = map (\<lambda>k. s_error_codes self ! k) p"
    by (simp add: error_codes_def Let_def eq take_ndxs_def)
  have x: "fst (Scan_x self) = map (\<lambda>k. s_distances self ! k * cos (s_angles self ! k)) p"
    by (simp add: Scan_x_def Let_def eq times_arrays_take_ndxs)
  have y: "fst (Scan_y self) = map (\<lambda>k. s_distances self ! k * sin (s_angles self ! k)) p"
    by (simp add: Scan_y_def Let_def eq times_arrays_take_ndxs)
  have pts: "fst (points self) = [fst (Scan_x self), fst (Scan_y self)]"
    by (simp add: points_def Scan_x_def Scan_y_def Let_def sort_measurements_idem)
  from lens srt p d a i e x y pts show ?thesis by blast
qed

theorem accessors_sorted_aligned_witness:
  "reachable (snd (add_measurement 2 1 6 0 ''meters'' ''radians''
                (snd (add_measurement 1 2 5 0 ''meters'' ''radians'' Scan_init))))
   \<and> sorted (fst (angles (snd (add_measurement 2 1 6 0 ''meters'' ''radians''
                (snd (add_measurement 1 2 5 0 ''meters'' ''radians'' Scan_init))))))
   \<and> fst (angles (snd (add_measurement 2 1 6 0 ''meters'' ''radians''
                (snd (add_measurement 1 2 5 0 ''meters'' ''radians'' Scan_init))))) = [1, 2]
   \<and> fst (distances (snd (add_measurement 2 1 6 0 ''meters'' ''radians''
                (snd (add_measurement 1 2 5 0 ''meters'' ''radians'' Scan_init))))) = [2, 1]
   \<and> fst (intensities (snd (add_measurement 2 1 6 0 ''meters'' ''radians''
                (snd (add_measurement 1 2 5 0 ''meters'' ''radians'' Scan_init))))) = [6, 5]"
proof -
  have r: "reachable (snd (add_measurement 2 1 6 0 ''meters'' ''radians''
                (snd (add_measurement 1 2 5 0 ''meters'' ''radians'' Scan_init))))"
    by (intro reachable.intros)
  have ev: "snd (add_measurement 2 1 6 0 ''meters'' ''radians''
                (snd (add_measurement 1 2 5 0 ''meters'' ''radians'' Scan_init))) =
            \<lparr> s_distances = [1, 2], s_angles = [2, 1], s_intensities = [5, 6],
              s_error_codes = [0, 0], s_unsorted = True, s_distance_max = 5 \<rparr>"
    by (simp add: add_measurement_def Scan_init_def acceptable_lu_def acceptable_au_def)
  have ndxs: "argsort [2, 1] = [1, 0]"
    by (simp add: argsort_def upt_rec)
  from accessors_sorted_aligned [OF r] r show ?thesis
    by (simp add: ev ndxs angles_def distances_def intensities_def sort_measurements_def
          take_ndxs_def)
qed

text \<open>
  Claim C5: each accessor leaves the Scan as \<open>sort_measurements\<close> leaves it, with the
  dirty flag cleared, and a second call of an accessor returns what the first returned
  and the same Scan. No second sort: on a Scan whose dirty flag is clear, whatever the
  order of its data, \<open>sort_measurements\<close> changes nothing and each accessor returns the
  stored sequences as they are. \<^verbatim>\<open>add_measurement\<close> sets the dirty flag, whether it
  returns or raises, and the next accessor sorts again: the angles it returns are
  ascending, and the four sequences are those after the call, all taken at one
  permutation \<open>p\<close> of the indices.
\<close>

theorem accessors_memoized:
  "snd (distances self) = sort_measurements self
   \<and> snd (angles self) = sort_measurements self
   \<and> snd (intensities self) = sort_measurements self
   \<and> snd (error_codes self) = sort_measurements self
   \<and> snd (Scan_x self) = sort_measurements self
   \<and> snd (Scan_y self) = sort_measurements self
   \<and> snd (points self) = sort_measurements self
   \<and> \<not> s_unsorted (sort_measurements self)
   \<and> sort_measurements (sort_measurements self) = sort_measurements self
   \<and> distances (sort_measurements self) = distances self
   \<and> angles (sort_measurements self) = angles self
   \<and> intensities (sort_measurements self) = intensities self
   \<and> error_codes (sort_measurements self) = error_codes self
   \<and> Scan_x (sort_measurements self) = Scan_x self
   \<and> Scan_y (sort_measurements self) = Scan_y self
   \<and> points (sort_measurements self) = points self
   \<and> (\<not> s_unsorted self \<longrightarrow>
        sort_measurements self = self
      \<and> distances self = (s_distances self, self)
      \<and> angles self = (s_angles self, self)
      \<and> intensities self = (s_intensities self, self)
      \<and> error_codes self = (s_error_codes self, self)
      \<and> Scan_x self = (times_arrays (s_distances self) (map cos (s_angles self)), self)
      \<and> Scan_y self = (times_arrays (s_distances self) (map sin (s_angles self)), self)
      \<and> points self =
          ([times_arrays (s_distances self) (map cos (s_angles self)),
            times_arrays (s_distances self) (map sin (s_angles self))], self))
   \<and> s_unsorted (snd (add_measurement d a i e lu au self))
   \<and> sorted (fst (angles (snd (add_measurement d a i e lu au self))))
   \<and> (\<exists>p. mset p = mset [0..<length (s_angles (snd (add_measurement d a i e lu au self)))]
         \<and> sorted (take_ndxs (s_angles (snd (add_measurement d a i e lu au self))) p)
         \<and> sort_measurements (snd (add_measurement d a i e lu au self)) =
             (snd (add_measurement d a i e lu au self))
               \<lparr> s_distances :=
                   take_ndxs (s_distances (snd (add_measurement d a i e lu au self))) p,
                 s_angles :=
                   take_ndxs (s_angles (snd (add_measurement d a i e lu au self))) p,
                 s_intensities :=
                   take_ndxs (s_intensities (snd (add_measurement d a i e lu au self))) p,
                 s_error_codes :=
                   take_ndxs (s_error_codes (snd (add_measurement d a i e lu au self))) p,
                 s_unsorted := False \<rparr>)"
proof -
  let ?added = "snd (add_measurement d a i e lu au self)"
  have post: "snd (distances self) = sort_measurements self"
    "snd (angles self) = sort_measurements self"
    "snd (intensities self) = sort_measurements self"
    "snd (error_codes self) = sort_measurements self"
    "snd (Scan_x self) = sort_measurements self"
    "snd (Scan_y self) = sort_measurements self"
    "snd (points self) = sort_measurements self"
    by (simp_all add: distances_def angles_def intensities_def error_codes_def Scan_x_def
          Scan_y_def points_def Let_def sort_measurements_idem)
  have again: "distances (sort_measurements self) = distances self"
    "angles (sort_measurements self) = angles self"
    "intensities (sort_measurements self) = intensities self"
    "error_codes (sort_measurements self) = error_codes self"
    "Scan_x (sort_measurements self) = Scan_x self"
    "Scan_y (sort_measurements self) = Scan_y self"
    "points (sort_measurements self) = points self"
    by (simp_all add: distances_def angles_def intensities_def error_codes_def Scan_x_def
          Scan_y_def points_def Let_def sort_measurements_idem)
  have clear: "sort_measurements self = self
      \<and> distances self = (s_distances self, self)
      \<and> angles self = (s_angles self, self)
      \<and> intensities self = (s_intensities self, self)
      \<and> error_codes self = (s_error_codes self, self)
      \<and> Scan_x self = (times_arrays (s_distances self) (map cos (s_angles self)), self)
      \<and> Scan_y self = (times_arrays (s_distances self) (map sin (s_angles self)), self)
      \<and> points self =
          ([times_arrays (s_distances self) (map cos (s_angles self)),
            times_arrays (s_distances self) (map sin (s_angles self))], self)"
    if "\<not> s_unsorted self"
    using that
    by (simp add: distances_def angles_def intensities_def error_codes_def Scan_x_def
          Scan_y_def points_def Let_def sort_measurements_sorted_id)
  have dirty: "s_unsorted ?added"
    by (rule s_unsorted_add_measurement)
  have srt: "sorted (fst (angles ?added))"
    using dirty by (simp add: angles_def sort_measurements_def Let_def sorted_take_ndxs_argsort)
  have "mset (argsort (s_angles ?added)) = mset [0..<length (s_angles ?added)]
         \<and> sorted (take_ndxs (s_angles ?added) (argsort (s_angles ?added)))
         \<and> sort_measurements ?added =
             ?added
               \<lparr> s_distances := take_ndxs (s_distances ?added) (argsort (s_angles ?added)),
                 s_angles := take_ndxs (s_angles ?added) (argsort (s_angles ?added)),
                 s_intensities := take_ndxs (s_intensities ?added) (argsort (s_angles ?added)),
                 s_error_codes := take_ndxs (s_error_codes ?added) (argsort (s_angles ?added)),
                 s_unsorted := False \<rparr>"
    using dirty by (simp add: sort_measurements_def Let_def mset_argsort sorted_take_ndxs_argsort)
  then have resort: "\<exists>p. mset p = mset [0..<length (s_angles ?added)]
         \<and> sorted (take_ndxs (s_angles ?added) p)
         \<and> sort_measurements ?added =
             ?added
               \<lparr> s_distances := take_ndxs (s_distances ?added) p,
                 s_angles := take_ndxs (s_angles ?added) p,
                 s_intensities := take_ndxs (s_intensities ?added) p,
                 s_error_codes := take_ndxs (s_error_codes ?added) p,
                 s_unsorted := False \<rparr>"
    by blast
  from post again clear dirty srt resort s_unsorted_sort_measurements [of self]
    sort_measurements_idem [of self]
  show ?thesis by blast
qed

theorem accessors_memoized_witness:
  "\<not> s_unsorted \<lparr> s_distances = [1, 2], s_angles = [2, 1], s_intensities = [5, 6],
        s_error_codes = [0, 0], s_unsorted = False, s_distance_max = 5 \<rparr>
   \<and> angles \<lparr> s_distances = [1, 2], s_angles = [2, 1], s_intensities = [5, 6],
        s_error_codes = [0, 0], s_unsorted = False, s_distance_max = 5 \<rparr>
       = ([2, 1], \<lparr> s_distances = [1, 2], s_angles = [2, 1], s_intensities = [5, 6],
        s_error_codes = [0, 0], s_unsorted = False, s_distance_max = 5 \<rparr>)
   \<and> sort_measurements \<lparr> s_distances = [1, 2], s_angles = [2, 1], s_intensities = [5, 6],
        s_error_codes = [0, 0], s_unsorted = False, s_distance_max = 5 \<rparr>
       = \<lparr> s_distances = [1, 2], s_angles = [2, 1], s_intensities = [5, 6],
        s_error_codes = [0, 0], s_unsorted = False, s_distance_max = 5 \<rparr>
   \<and> sorted (fst (angles (snd (add_measurement 0 0 7 0 ''meters'' ''radians''
        \<lparr> s_distances = [1, 2], s_angles = [2, 1], s_intensities = [5, 6],
          s_error_codes = [0, 0], s_unsorted = False, s_distance_max = 5 \<rparr>))))
   \<and> fst (angles (snd (add_measurement 0 0 7 0 ''meters'' ''radians''
        \<lparr> s_distances = [1, 2], s_angles = [2, 1], s_intensities = [5, 6],
          s_error_codes = [0, 0], s_unsorted = False, s_distance_max = 5 \<rparr>))) = [0, 1, 2]"
proof -
  let ?S = "\<lparr> s_distances = [1, 2], s_angles = [2, 1], s_intensities = [5, 6],
        s_error_codes = [0, 0], s_unsorted = False, s_distance_max = 5 \<rparr>"
  have h: "\<not> s_unsorted ?S" by simp
  note inst = accessors_memoized
    [where self = ?S and d = 0 and a = 0 and i = 7 and e = 0 and lu = "''meters''"
       and au = "''radians''"]
  have a: "angles ?S = ([2, 1], ?S)" "sort_measurements ?S = ?S"
    using inst h by simp_all
  have s: "sorted (fst (angles (snd (add_measurement 0 0 7 0 ''meters'' ''radians'' ?S))))"
    using inst by blast
  have ndxs: "argsort [2, 1, 0] = [2, 1, 0]"
    by (simp add: argsort_def upt_rec)
  have v: "fst (angles (snd (add_measurement 0 0 7 0 ''meters'' ''radians'' ?S))) = [0, 1, 2]"
    by (simp add: add_measurement_def acceptable_lu_def acceptable_au_def angles_def
          sort_measurements_def ndxs take_ndxs_def)
  from h a s v show ?thesis by simp
qed

section \<open>Properties of the ScanParser\<close>

subsection \<open>The extraction of scan strings\<close>

lemma file_to_strings_loop_spec:
  "fst (file_to_strings_loop lines (scans, buffer, accumulating)) =
     scans @ (if accumulating then spec_accumulating buffer lines else spec_idle lines)"
proof (induction lines arbitrary: scans buffer accumulating)
  case Nil
  show ?case by simp
next
  case (Cons line rest)
  show ?case by (simp add: Cons.IH)
qed

lemma file_to_strings_lines_spec: "file_to_strings_lines lines = spec_idle lines"
  by (simp add: file_to_strings_lines_def file_to_strings_loop_spec)

lemma spec_accumulating_body:
  "\<forall>l \<in> set body. \<not> str_in start_token l \<and> \<not> str_in end_token l \<Longrightarrow>
   spec_accumulating buffer (body @ rest) = spec_accumulating (buffer @ concat body) rest"
  by (induction body arbitrary: buffer) simp_all

lemma spec_idle_junk:
  "\<forall>l \<in> set junk. \<not> str_in start_token l \<Longrightarrow> spec_idle (junk @ rest) = spec_idle rest"
  by (induction junk) simp_all

text \<open>
  Claim C7: \<^verbatim>\<open>file_to_strings\<close> computes what the machine of the specification computes
  on the lines of the file, in file order. So lines seen while not accumulating are
  discarded; a block of a start line, lines without a token and an end line gives one
  scan string, the lines between the two markers; and a start line followed by lines
  without a token up to the end of the file gives none. The last four statements are
  the body of the loop, case by case: a line with the start token begins a new buffer,
  whatever else it holds; a line with the end token, and without the start token, closes
  the buffer while accumulating; any other line is added to the buffer while
  accumulating, and changes nothing otherwise.
\<close>

theorem file_to_strings_machine:
  "file_to_strings fs filename =
     (case fs filename of
        None \<Rightarrow> Inl IOError
      | Some content \<Rightarrow> Inr (spec_idle (file_lines content)))
   \<and> ((\<forall>l \<in> set junk. \<not> str_in start_token l) \<longrightarrow>
        file_to_strings_lines (junk @ rest) = file_to_strings_lines rest)
   \<and> (str_in start_token s
        \<and> (\<forall>l \<in> set body. \<not> str_in start_token l \<and> \<not> str_in end_token l)
        \<and> \<not> str_in start_token e \<and> str_in end_token e \<longrightarrow>
        file_to_strings_lines (s # body @ e # rest) = concat body # file_to_strings_lines rest)
   \<and> (str_in start_token s
        \<and> (\<forall>l \<in> set body. \<not> str_in start_token l \<and> \<not> str_in end_token l) \<longrightarrow>
        file_to_strings_lines (s # body) = [])
   \<and> (str_in start_token line \<longrightarrow>
        file_to_strings_line (scans, buffer, accumulating) line = (scans, [], True))
   \<and> (\<not> str_in start_token line \<and> str_in end_token line \<longrightarrow>
        file_to_strings_line (scans, buffer, True) line = (scans @ [buffer], buffer, False))
   \<and> (\<not> str_in start_token line \<and> \<not> str_in end_token line \<longrightarrow>
        file_to_strings_line (scans, buffer, True) line = (scans, buffer @ line, True))
   \<and> (\<not> str_in start_token line \<longrightarrow>
        file_to_strings_line (scans, buffer, False) line = (scans, buffer, False))"
proof -
  have a: "file_to_strings fs filename =
     (case fs filename of
        None \<Rightarrow> Inl IOError
      | Some content \<Rightarrow> Inr (spec_idle (file_lines content)))"
    by (simp add: file_to_strings_def file_to_strings_lines_spec split: option.splits)
  have b: "file_to_strings_lines (junk @ rest) = file_to_strings_lines rest"
    if "\<forall>l \<in> set junk. \<not> str_in start_token l"
    using that by (simp add: file_to_strings_lines_spec spec_idle_junk)
  have c: "file_to_strings_lines (s # body @ e # rest) = concat body # file_to_strings_lines rest"
    if "str_in start_token s" "\<forall>l \<in> set body. \<not> str_in start_token l \<and> \<not> str_in end_token l"
      "\<not> str_in start_token e" "str_in end_token e"
    using that by (simp add: file_to_strings_lines_spec spec_accumulating_body)
  have d: "file_to_strings_lines (s # body) = []"
    if "str_in start_token s" "\<forall>l \<in> set body. \<not> str_in start_token l \<and> \<not> str_in end_token l"
    using that spec_accumulating_body [of body "[]" "[]"]
    by (simp add: file_to_strings_lines_spec)
  have step: "str_in start_token line \<longrightarrow>
        file_to_strings_line (scans, buffer, accumulating) line = (scans, [], True)"
    "\<not> str_in start_token line \<and> str_in end_token line \<longrightarrow>
        file_to_strings_line (scans, buffer, True) line = (scans @ [buffer], buffer, False)"
    "\<not> str_in start_token line \<and> \<not> str_in end_token line \<longrightarrow>
        file_to_strings_line (scans, buffer, True) line = (scans, buffer @ line, True)"
    "\<not> str_in start_token line \<longrightarrow>
        file_to_strings_line (scans, buffer, False) line = (scans, buffer, False)"
    by simp_all
  from a b c d step show ?thesis by blast
qed

theorem file_to_strings_machine_witness:
  "\<not> str_in start_token ''junk''
   \<and> str_in start_token ''AngleInDegrees,DistInMM''
   \<and> \<not> str_in start_token ''0,100,5,0 '' \<and> \<not> str_in end_token ''0,100,5,0 ''
   \<and> \<not> str_in start_token ''1,150,6,0 '' \<and> \<not> str_in end_token ''1,150,6,0 ''
   \<and> \<not> str_in start_token ''ROTATION_SPEED,5.0'' \<and> str_in end_token ''ROTATION_SPEED,5.0''
   \<and> \<not> str_in start_token ''7,1,1,1 '' \<and> \<not> str_in end_token ''7,1,1,1 ''
   \<and> file_to_strings_lines
        (''AngleInDegrees,DistInMM'' # [''0,100,5,0 '', ''1,150,6,0 ''] @ ''ROTATION_SPEED,5.0''
           # [''AngleInDegrees,DistInMM'', ''7,1,1,1 ''])
      = [''0,100,5,0 1,150,6,0 '']
   \<and> file_to_strings_lines ([''junk''] @ [''AngleInDegrees,DistInMM'', ''7,1,1,1 '']) = []
   \<and> file_to_strings [''log'' \<mapsto> ''AngleInDegrees'' @ [newline] @ ''0,100,5,0'' @ [newline]
                         @ ''ROTATION_SPEED'' @ [newline]] ''log''
      = Inr [''0,100,5,0'' @ [newline]]
   \<and> file_to_strings [''log'' \<mapsto> ''''] ''other'' = Inl IOError"
proof -
  have toks: "str_in start_token ''AngleInDegrees,DistInMM''"
    "\<not> str_in start_token ''ROTATION_SPEED,5.0''" "str_in end_token ''ROTATION_SPEED,5.0''"
    "\<not> str_in start_token ''junk''" "\<not> str_in start_token ''0,100,5,0 ''"
    "\<not> str_in end_token ''0,100,5,0 ''" "\<not> str_in start_token ''1,150,6,0 ''"
    "\<not> str_in end_token ''1,150,6,0 ''" "\<not> str_in start_token ''7,1,1,1 ''"
    "\<not> str_in end_token ''7,1,1,1 ''"
    by (simp_all add: start_token_def end_token_def)
  have tail: "file_to_strings_lines [''AngleInDegrees,DistInMM'', ''7,1,1,1 ''] = []"
    using file_to_strings_machine
      [where s = "''AngleInDegrees,DistInMM''" and body = "[''7,1,1,1 '']" and junk = "[]"]
    by (simp del: str_in.simps add: toks)
  have block: "file_to_strings_lines
        (''AngleInDegrees,DistInMM'' # [''0,100,5,0 '', ''1,150,6,0 ''] @ ''ROTATION_SPEED,5.0''
           # [''AngleInDegrees,DistInMM'', ''7,1,1,1 ''])
      = [''0,100,5,0 1,150,6,0 '']"
    using file_to_strings_machine
      [where s = "''AngleInDegrees,DistInMM''" and body = "[''0,100,5,0 '', ''1,150,6,0 '']"
         and e = "''ROTATION_SPEED,5.0''" and junk = "[]"
         and rest = "[''AngleInDegrees,DistInMM'', ''7,1,1,1 '']"]
    by (simp del: str_in.simps add: toks tail)
  have junk: "file_to_strings_lines ([''junk''] @ [''AngleInDegrees,DistInMM'', ''7,1,1,1 '']) = []"
    using file_to_strings_machine
      [where junk = "[''junk'']" and rest = "[''AngleInDegrees,DistInMM'', ''7,1,1,1 '']"
         and body = "[]" and s = "[]"]
    by (simp del: str_in.simps add: toks tail)
  have f1: "file_to_strings [''log'' \<mapsto> ''AngleInDegrees'' @ [newline] @ ''0,100,5,0'' @ [newline]
                         @ ''ROTATION_SPEED'' @ [newline]] ''log''
      = Inr [''0,100,5,0'' @ [newline]]"
    using file_to_strings_machine
      [where fs = "[''log'' \<mapsto> ''AngleInDegrees'' @ [newline] @ ''0,100,5,0'' @ [newline]
                         @ ''ROTATION_SPEED'' @ [newline]]" and filename = "''log''"
         and junk = "[]" and body = "[]" and s = "[]"]
    by (simp add: newline_def start_token_def end_token_def)
  have f2: "file_to_strings [''log'' \<mapsto> ''''] ''other'' = Inl IOError"
    using file_to_strings_machine
      [where fs = "[''log'' \<mapsto> '''']" and filename = "''other''"
         and junk = "[]" and body = "[]" and s = "[]"]
    by simp
  from toks block junk f1 f2 show ?thesis by (simp del: str_in.simps)
qed

subsection \<open>One line of a scan string\<close>

lemma from_string_loop_append:
  "from_string_loop (pre @ rest) st =
     (case from_string_loop pre st of Inl e \<Rightarrow> Inl e | Inr st' \<Rightarrow> from_string_loop rest st')"
  by (induction pre arbitrary: st) (simp_all split: sum.splits)

lemma from_string_line_malformed:
  "length (split_on CHR '','' line) \<noteq> 4 \<Longrightarrow> from_string_line st line = Inl MalformedRecord"
  by (simp add: from_string_line_def Let_def)

lemma from_string_line_conversion:
  assumes "split_on CHR '','' line = [fa, fd, fi, fe]"
    and "py_float fa = None \<or> py_float fd = None \<or> py_int fi = None \<or> py_int fe = None"
  shows "from_string_line st line = Inl ConversionError"
  using assms by (auto simp add: from_string_line_def Let_def split: option.splits)

lemma from_string_line_invalid:
  assumes "split_on CHR '','' line = [fa, fd, fi, fe]"
    and "py_float fa = Some angle" "py_float fd = Some distance"
    and "py_int fi = Some intense" "py_int fe = Some err"
    and "pf_less distance (Finite 0) \<or> pf_less angle (Finite 0) \<or> pf_less (Finite 359) angle
         \<or> intense < 0 \<or> err < 0"
  shows "\<exists>e. is_InvalidValue e \<and> from_string_line st line = Inl e"
  using assms by (auto simp add: from_string_line_def Let_def)




subsection \<open>The loops of the parser\<close>



lemma from_file_loop_map_filter:
  "from_file_loop scan_strings scans =
     scans @ List.map_filter
               (\<lambda>s. case from_string s of Inl _ \<Rightarrow> None | Inr scan \<Rightarrow> Some scan) scan_strings"
  by (induction scan_strings arbitrary: scans)
     (simp_all add: List.map_filter_simps split: sum.splits)

lemma from_string_error_at:
  assumes "split_ws scan_string = pre @ line # rest"
    and "from_string_loop pre (None, Scan_init) = Inr st"
    and "from_string_line st line = Inl e"
  shows "from_string scan_string = Inl e"
  using assms by (simp add: from_string_def from_string_loop_append)

lemma from_string_fails:
  assumes "split_ws scan_string = pre @ line # rest"
    and "\<And>st. \<exists>e. from_string_line st line = Inl e"
  shows "\<exists>e. from_string scan_string = Inl e"
proof (cases "from_string_loop pre (None, Scan_init)")
  case (Inl e)
  with assms(1) show ?thesis
    by (simp add: from_string_def from_string_loop_append)
next
  case (Inr st)
  from assms(2) obtain e where "from_string_line st line = Inl e" by blast
  with assms(1) Inr have "from_string scan_string = Inl e"
    by (rule from_string_error_at)
  then show ?thesis by blast
qed

subsection \<open>Parsing a scan string and a file\<close>

text \<open>The definitions that evaluate \<open>from_string\<close> on a given string.\<close>

lemmas float_eval = py_float_def py_unsigned_float_def py_decimal_def py_mantissa_def
  is_exp_mark_def py_int_def py_digits_def is_digit_def digits_val_def is_inf_word_def
  is_nan_word_def round_double_def round_half_even_def binade_def bit_length.simps

lemmas parse_eval = from_string_def split_ws_def is_space_def from_string_line_def float_eval
  add_measurement_def Scan_init_def acceptable_lu_def acceptable_au_def

text \<open>
  \<^verbatim>\<open>float\<close> on some literals: a literal between two doubles is read as the nearest one, a
  literal below the smallest double as 0, and the spellings of infinity and of
  not-a-number are read.
\<close>

lemma float_reads_doubles:
  "py_float ''359.00000000000000001'' = Some (Finite 359)"
  "py_float ''0.1'' = Some (Finite (3602879701896397 / 36028797018963968))"
  "py_float ''9007199254740993'' = Some (Finite 9007199254740992)"
  "py_float ''-1e-400'' = Some (Finite 0)"
  "py_float ''inf'' = Some PosInf"
  "py_float ''-inf'' = Some NegInf"
  "py_float ''Infinity'' = Some PosInf"
  "py_float ''nan'' = Some NaN"
  "py_float ''1e'' = None"
  "py_float ''abc'' = None"
  "py_float ''0'' = Some (Finite 0)"
  "py_float ''500'' = Some (Finite 500)"
  by (simp_all add: float_eval)

text \<open>
  So an angle that \<^verbatim>\<open>float\<close> rounds to 359 and a distance that it rounds to 0 are
  accepted; an infinite angle and a distance of minus infinity fail the checks; and
  where the program would store a value that is not finite, the model stops.
\<close>

lemma from_string_on_doubles:
  "from_string ''359.00000000000000001,500,5,0'' =
     Inr \<lparr> s_distances = [1 / 2], s_angles = [359 * pi / 180], s_intensities = [5],
           s_error_codes = [0], s_unsorted = True, s_distance_max = 5 \<rparr>"
  "from_string ''0,-1e-400,5,0'' =
     Inr \<lparr> s_distances = [0], s_angles = [0], s_intensities = [5],
           s_error_codes = [0], s_unsorted = True, s_distance_max = 5 \<rparr>"
  "from_string ''inf,500,5,0'' = Inl InvalidAngle"
  "from_string ''0,-inf,5,0'' = Inl InvalidDistance"
  "from_string ''0,inf,5,0'' = Inl NonFiniteValue"
  "from_string ''nan,500,5,0'' = Inl NonFiniteValue"
  by (simp_all add: from_string_def split_ws_def is_space_def from_string_line_def
        float_reads_doubles py_int_def py_digits_def is_digit_def digits_val_def
        add_measurement_def Scan_init_def acceptable_lu_def acceptable_au_def)



subsection \<open>The validation of a line\<close>

text \<open>
  Claim C9: a line of a scan string that does not split into exactly 4 fields at the
  commas makes \<^verbatim>\<open>from_string\<close> fail, with MalformedRecord when the lines before it
  were accepted; a line of 4 fields that \<^verbatim>\<open>float\<close> and \<^verbatim>\<open>int\<close> read, with a distance below
  0, an angle below 0 or above 359, an intensity below 0 or an error code below 0, makes
  \<^verbatim>\<open>from_string\<close> fail, with InvalidValue when the lines before it were accepted. The
  distance and the angle are the doubles that \<^verbatim>\<open>float\<close> returns, compared as doubles are.
  The body of the loop raises these errors whatever the lines before have left.
\<close>

theorem from_string_line_validation:
  assumes "split_ws scan_string = pre @ line # rest"
  shows "(length (split_on CHR '','' line) \<noteq> 4 \<longrightarrow>
            from_string_line st line = Inl MalformedRecord
          \<and> (\<exists>e. from_string scan_string = Inl e)
          \<and> (from_string_loop pre (None, Scan_init) = Inr st \<longrightarrow>
               from_string scan_string = Inl MalformedRecord))
       \<and> (split_on CHR '','' line = [fa, fd, fi, fe]
          \<and> py_float fa = Some angle \<and> py_float fd = Some distance
          \<and> py_int fi = Some intense \<and> py_int fe = Some err
          \<and> (pf_less distance (Finite 0) \<or> pf_less angle (Finite 0)
              \<or> pf_less (Finite 359) angle \<or> intense < 0 \<or> err < 0) \<longrightarrow>
            (\<exists>e. is_InvalidValue e \<and> from_string_line st line = Inl e)
          \<and> (\<exists>e. from_string scan_string = Inl e)
          \<and> (from_string_loop pre (None, Scan_init) = Inr st \<longrightarrow>
               (\<exists>e. is_InvalidValue e \<and> from_string scan_string = Inl e)))"
proof -
  have m: "from_string_line st line = Inl MalformedRecord
          \<and> (\<exists>e. from_string scan_string = Inl e)
          \<and> (from_string_loop pre (None, Scan_init) = Inr st \<longrightarrow>
               from_string scan_string = Inl MalformedRecord)"
    if len: "length (split_on CHR '','' line) \<noteq> 4"
  proof -
    have l: "from_string_line st' line = Inl MalformedRecord" for st'
      using len by (rule from_string_line_malformed)
    then have "\<exists>e. from_string scan_string = Inl e"
      by (intro from_string_fails [OF assms]) blast
    moreover have "from_string scan_string = Inl MalformedRecord"
      if "from_string_loop pre (None, Scan_init) = Inr st"
      using assms that l by (rule from_string_error_at)
    ultimately show ?thesis using l by blast
  qed
  have v: "(\<exists>e. is_InvalidValue e \<and> from_string_line st line = Inl e)
          \<and> (\<exists>e. from_string scan_string = Inl e)
          \<and> (from_string_loop pre (None, Scan_init) = Inr st \<longrightarrow>
               (\<exists>e. is_InvalidValue e \<and> from_string scan_string = Inl e))"
    if f: "split_on CHR '','' line = [fa, fd, fi, fe]"
      "py_float fa = Some angle" "py_float fd = Some distance"
      "py_int fi = Some intense" "py_int fe = Some err"
      "pf_less distance (Finite 0) \<or> pf_less angle (Finite 0) \<or> pf_less (Finite 359) angle
         \<or> intense < 0 \<or> err < 0"
  proof -
    have l: "\<exists>e. is_InvalidValue e \<and> from_string_line st' line = Inl e" for st'
      using f by (rule from_string_line_invalid)
    then have "\<exists>e. from_string scan_string = Inl e"
      by (intro from_string_fails [OF assms]) blast
    moreover have "\<exists>e. is_InvalidValue e \<and> from_string scan_string = Inl e"
      if "from_string_loop pre (None, Scan_init) = Inr st"
    proof -
      from l obtain e where e: "is_InvalidValue e" "from_string_line st line = Inl e"
        by blast
      from assms that e(2) have "from_string scan_string = Inl e"
        by (rule from_string_error_at)
      with e(1) show ?thesis by blast
    qed
    ultimately show ?thesis using l by blast
  qed
  from m v show ?thesis by blast
qed

theorem from_string_line_validation_witness:
  "split_ws ''0,100,5,0 1,150,6'' = [''0,100,5,0''] @ ''1,150,6'' # []
   \<and> length (split_on CHR '','' ''1,150,6'') \<noteq> 4
   \<and> from_string_loop [''0,100,5,0''] (None, Scan_init) =
       Inr (Some (Finite 0),
            \<lparr> s_distances = [1 / 10], s_angles = [0], s_intensities = [5],
              s_error_codes = [0], s_unsorted = True, s_distance_max = 5 \<rparr>)
   \<and> from_string ''0,100,5,0 1,150,6'' = Inl MalformedRecord
   \<and> split_ws ''0,100,5,0 1,-150,6,0'' = [''0,100,5,0''] @ ''1,-150,6,0'' # []
   \<and> split_on CHR '','' ''1,-150,6,0'' = [''1'', ''-150'', ''6'', ''0'']
   \<and> py_float ''1'' = Some (Finite 1) \<and> py_float ''-150'' = Some (Finite (- 150))
   \<and> py_int ''6'' = Some 6 \<and> py_int ''0'' = Some 0 \<and> pf_less (Finite (- 150)) (Finite 0)
   \<and> (\<exists>e. is_InvalidValue e \<and> from_string ''0,100,5,0 1,-150,6,0'' = Inl e)"
proof -
  let ?st = "(Some (Finite 0),
            \<lparr> s_distances = [1 / 10], s_angles = [0], s_intensities = [5],
              s_error_codes = [0], s_unsorted = True, s_distance_max = 5 \<rparr>)"
  have sp1: "split_ws ''0,100,5,0 1,150,6'' = [''0,100,5,0''] @ ''1,150,6'' # []"
    by (simp add: split_ws_def is_space_def)
  have sp2: "split_ws ''0,100,5,0 1,-150,6,0'' = [''0,100,5,0''] @ ''1,-150,6,0'' # []"
    by (simp add: split_ws_def is_space_def)
  have len: "length (split_on CHR '','' ''1,150,6'') \<noteq> 4"
    by simp
  have pre: "from_string_loop [''0,100,5,0''] (None, Scan_init) = Inr ?st"
    by (simp add: parse_eval)
  have flds: "split_on CHR '','' ''1,-150,6,0'' = [''1'', ''-150'', ''6'', ''0'']"
    by simp
  have vals: "py_float ''1'' = Some (Finite 1)" "py_float ''-150'' = Some (Finite (- 150))"
    "py_int ''6'' = Some 6" "py_int ''0'' = Some 0"
    by (simp_all add: parse_eval)
  have neg: "pf_less (Finite (- 150)) (Finite 0)" by simp
  have r1: "from_string ''0,100,5,0 1,150,6'' = Inl MalformedRecord"
    using from_string_line_validation [OF sp1, where st = ?st] len pre by blast
  have r2: "\<exists>e. is_InvalidValue e \<and> from_string ''0,100,5,0 1,-150,6,0'' = Inl e"
    using from_string_line_validation
      [OF sp2, where st = ?st and fa = "''1''" and fd = "''-150''" and fi = "''6''"
         and fe = "''0''" and angle = "Finite 1" and distance = "Finite (- 150)"
         and intense = 6 and err = 0]
      flds vals neg pre
    by blast
  from sp1 sp2 len pre flds vals neg r1 r2 show ?thesis by blast
qed

text \<open>
  Claim C10: a line of 4 fields of which one is not a number for \<^verbatim>\<open>float\<close> or \<^verbatim>\<open>int\<close>
  (the conversion raises; \<^verbatim>\<open>float\<close> reads the spellings of infinity and not-a-number)
  makes the body of the loop fail with the error of the conversion, which is none of
  the four kinds of the specification, whatever the values of the other fields and the
  previous angle are; \<^verbatim>\<open>from_string\<close> fails, with that error
  when the lines before were accepted; and \<^verbatim>\<open>from_file\<close> returns what it returns
  without that scan string.
\<close>

theorem from_string_conversion_error:
  assumes "split_on CHR '','' line = [fa, fd, fi, fe]"
    and "py_float fa = None \<or> py_float fd = None \<or> py_int fi = None \<or> py_int fe = None"
  shows "from_string_line st line = Inl ConversionError
       \<and> \<not> is_InvalidUnit ConversionError \<and> \<not> is_InvalidValue ConversionError
       \<and> ConversionError \<noteq> MalformedRecord \<and> ConversionError \<noteq> OutOfOrder
       \<and> (split_ws scan_string = pre @ line # rest \<longrightarrow>
            (\<exists>e. from_string scan_string = Inl e)
          \<and> (from_string_loop pre (None, Scan_init) = Inr st \<longrightarrow>
               from_string scan_string = Inl ConversionError)
          \<and> (file_to_strings fs filename = Inr (before @ scan_string # after) \<longrightarrow>
               from_file fs filename =
                 Inr (from_file_loop before [] @ from_file_loop after [])))"
proof -
  have l: "from_string_line st' line = Inl ConversionError" for st'
    using assms by (rule from_string_line_conversion)
  have rest: "(\<exists>e. from_string scan_string = Inl e)
          \<and> (from_string_loop pre (None, Scan_init) = Inr st \<longrightarrow>
               from_string scan_string = Inl ConversionError)
          \<and> (file_to_strings fs filename = Inr (before @ scan_string # after) \<longrightarrow>
               from_file fs filename =
                 Inr (from_file_loop before [] @ from_file_loop after []))"
    if sp: "split_ws scan_string = pre @ line # rest"
  proof -
    from l have fails: "\<exists>e. from_string scan_string = Inl e"
      by (intro from_string_fails [OF sp]) blast
    have first: "from_string scan_string = Inl ConversionError"
      if "from_string_loop pre (None, Scan_init) = Inr st"
      using sp that l by (rule from_string_error_at)
    have drop: "from_file fs filename = Inr (from_file_loop before [] @ from_file_loop after [])"
      if "file_to_strings fs filename = Inr (before @ scan_string # after)"
      using that fails
      by (auto simp add: from_file_def from_file_loop_map_filter List.map_filter_def)
    from fails first drop show ?thesis by blast
  qed
  from l rest show ?thesis by simp
qed

theorem from_string_conversion_error_witness:
  "split_on CHR '','' ''abc,100,5,0'' = [''abc'', ''100'', ''5'', ''0'']
   \<and> py_float ''abc'' = None
   \<and> split_ws ''abc,100,5,0\<newline>'' = [] @ ''abc,100,5,0'' # []
   \<and> from_string_loop [] (None, Scan_init) = Inr (None, Scan_init)
   \<and> file_to_strings
        [''log'' \<mapsto> ''AngleInDegrees\<newline>abc,100,5,0\<newline>ROTATION_SPEED\<newline>AngleInDegrees\<newline>0,100,5,0\<newline>ROTATION_SPEED\<newline>'']
        ''log''
       = Inr ([] @ ''abc,100,5,0\<newline>'' # [''0,100,5,0\<newline>''])
   \<and> from_string_line (None, Scan_init) ''abc,100,5,0'' = Inl ConversionError
   \<and> from_string ''abc,100,5,0\<newline>'' = Inl ConversionError
   \<and> from_file
        [''log'' \<mapsto> ''AngleInDegrees\<newline>abc,100,5,0\<newline>ROTATION_SPEED\<newline>AngleInDegrees\<newline>0,100,5,0\<newline>ROTATION_SPEED\<newline>'']
        ''log''
       = Inr [\<lparr> s_distances = [1 / 10], s_angles = [0], s_intensities = [5],
                s_error_codes = [0], s_unsorted = True, s_distance_max = 5 \<rparr>]"
proof -
  let ?S1 = "\<lparr> s_distances = [1 / 10], s_angles = [0], s_intensities = [5],
                s_error_codes = [0], s_unsorted = True, s_distance_max = 5 \<rparr>"
  let ?fs = "[''log'' \<mapsto> ''AngleInDegrees\<newline>abc,100,5,0\<newline>ROTATION_SPEED\<newline>AngleInDegrees\<newline>0,100,5,0\<newline>ROTATION_SPEED\<newline>'']"
  have flds: "split_on CHR '','' ''abc,100,5,0'' = [''abc'', ''100'', ''5'', ''0'']"
    by simp
  have nonum: "py_float ''abc'' = None"
    by (simp add: parse_eval)
  then have h: "py_float ''abc'' = None \<or> py_float ''100'' = None \<or> py_int ''5'' = None
      \<or> py_int ''0'' = None"
    by blast
  have sp: "split_ws ''abc,100,5,0\<newline>'' = [] @ ''abc,100,5,0'' # []"
    by (simp add: split_ws_def is_space_def)
  have pre: "from_string_loop [] (None, Scan_init) = Inr (None, Scan_init)"
    by simp
  have strs: "file_to_strings ?fs ''log''
       = Inr ([] @ ''abc,100,5,0\<newline>'' # [''0,100,5,0\<newline>''])"
    by (simp add: file_to_strings_def file_to_strings_lines_def newline_def start_token_def
          end_token_def)
  have s1: "from_string ''0,100,5,0\<newline>'' = Inr ?S1"
    by (simp add: parse_eval)
  note inst = from_string_conversion_error
      [OF flds h, where st = "(None, Scan_init)" and scan_string = "''abc,100,5,0\<newline>''"
         and pre = "[]" and rest = "[]" and fs = ?fs and filename = "''log''"
         and before = "[]" and after = "[''0,100,5,0\<newline>'']"]
  have l: "from_string_line (None, Scan_init) ''abc,100,5,0'' = Inl ConversionError"
    using inst by blast
  have r: "from_string ''abc,100,5,0\<newline>'' = Inl ConversionError"
    using inst sp pre by blast
  have "from_file ?fs ''log'' =
          Inr (from_file_loop [] [] @ from_file_loop [''0,100,5,0\<newline>''] [])"
    using inst sp strs by blast
  also have "from_file_loop [] [] @ from_file_loop [''0,100,5,0\<newline>''] [] = [?S1]"
    unfolding from_file_loop.simps s1 by simp
  finally have ff: "from_file ?fs ''log'' = Inr [?S1]" .
  from flds nonum sp pre strs l r ff show ?thesis by blast
qed

subsection \<open>The order of the angles\<close>

text \<open>
  Claim C2 says that \<^verbatim>\<open>from_string\<close> fails with OutOfOrder whenever the angle of a line
  is not greater than the angle of the line before it. The code assigns \<^verbatim>\<open>prev_angle\<close>
  on the first line only, so every later angle is compared with the first one: the
  scan string below, with the angles 0, 5, 3, is accepted.
\<close>

theorem from_string_accepts_decreasing_angle:
  "from_string ''0,100,5,0 5,150,6,0 3,150,6,0'' =
     Inr \<lparr> s_distances = [1 / 10, 3 / 20, 3 / 20],
           s_angles = [0, 5 * pi / 180, 3 * pi / 180],
           s_intensities = [5, 6, 6], s_error_codes = [0, 0, 0],
           s_unsorted = True, s_distance_max = 5 \<rparr>
   \<and> from_string ''1,100,5,0 0,150,6,0'' = Inl OutOfOrder"
  by (simp add: parse_eval)

end
